theory Spec2Isabelle
  imports Main
begin

section \<open>med2image: slice and frame selection of the NIfTI converter\<close>

text \<open>
  The development embeds \<^verbatim>\<open>med2image.py\<close>: the constructor \<^verbatim>\<open>med2image.__init__\<close>
  (selector parsing and output type resolution), the constructor and the \<^verbatim>\<open>run\<close> method
  of \<^verbatim>\<open>med2image_nii\<close> (frame and slice iteration, file naming) and the dispatch of the
  \<^verbatim>\<open>__main__\<close> block. A raised exception is a value of type \<open>error\<close>; the calls of
  \<^verbatim>\<open>pylab.imsave\<close> are collected, in order, as the list of emitted jobs. Logging, timing
  and \<^verbatim>\<open>misc.mkdir\<close> leave no trace in the model.
\<close>

subsection \<open>Exceptions\<close>

datatype error = AttributeError | ValueError | TypeError | IndexError | SystemExit nat

subsection \<open>Python string helpers used by the constructor\<close>

text \<open>\<^verbatim>\<open>str.lower\<close> on a byte string: the 26 ASCII capitals move down by 32.\<close>

definition lower_char :: "char \<Rightarrow> char" where
  "lower_char c =
     (case map_of (zip ''ABCDEFGHIJKLMNOPQRSTUVWXYZ'' ''abcdefghijklmnopqrstuvwxyz'') c of
        Some l \<Rightarrow> l
      | None \<Rightarrow> c)"

definition py_lower :: "string \<Rightarrow> string" where
  "py_lower s = map lower_char s"

text \<open>
  \<^verbatim>\<open>int(s)\<close> on a string, base 10: surrounding white space is dropped, one sign is
  accepted, at least one decimal digit must follow and nothing else may; anything else
  raises \<^verbatim>\<open>ValueError\<close>.
\<close>

definition is_space :: "char \<Rightarrow> bool" where
  "is_space c = (c \<in> set [CHR '' '', CHR 0x09, CHR 0x0A, CHR 0x0B, CHR 0x0C, CHR 0x0D])"

definition digit_val :: "char \<Rightarrow> int option" where
  "digit_val c = map_of (zip ''0123456789'' [0, 1, 2, 3, 4, 5, 6, 7, 8, 9]) c"

definition is_digit :: "char \<Rightarrow> bool" where
  "is_digit c = (digit_val c \<noteq> None)"

definition strip :: "string \<Rightarrow> string" where
  "strip s = rev (dropWhile is_space (rev (dropWhile is_space s)))"

definition parse_digits :: "string \<Rightarrow> error + int" where
  "parse_digits ds =
     (if ds \<noteq> [] \<and> list_all is_digit ds
      then Inr (foldl (\<lambda>a c. 10 * a + the (digit_val c)) 0 ds)
      else Inl ValueError)"

definition py_int :: "string \<Rightarrow> error + int" where
  "py_int s =
     (case strip s of
        [] \<Rightarrow> Inl ValueError
      | c # r \<Rightarrow>
          if c = CHR ''-'' then map_sum id uminus (parse_digits r)
          else if c = CHR ''+'' then parse_digits r
          else parse_digits (c # r))"

text \<open>
  \<^verbatim>\<open>'%03d' % n\<close>: the decimal digits of \<open>n\<close>, padded with zeros to a width of at least
  three characters; a minus sign counts towards the width and precedes the zeros.
\<close>

fun dec :: "nat \<Rightarrow> string" where
  "dec n = (if n < 10 then [''0123456789'' ! n] else dec (n div 10) @ [''0123456789'' ! (n mod 10)])"

declare dec.simps [simp del]

definition fmt_03d :: "int \<Rightarrow> string" where
  "fmt_03d n =
     (if n < 0
      then (let d = dec (nat (- n)) in CHR ''-'' # replicate (2 - length d) CHR ''0'' @ d)
      else (let d = dec (nat n) in replicate (3 - length d) CHR ''0'' @ d))"

text \<open>
  \<^verbatim>\<open>os.path.splitext\<close> (POSIX): the extension starts at the last dot of the last path
  component, unless that component has nothing but dots before it.
\<close>

fun find_last :: "char \<Rightarrow> string \<Rightarrow> nat \<Rightarrow> int \<Rightarrow> int" where
  "find_last c [] i acc = acc"
| "find_last c (x # xs) i acc = find_last c xs (Suc i) (if x = c then int i else acc)"

definition rfind :: "string \<Rightarrow> char \<Rightarrow> int" where
  "rfind p c = find_last c p 0 (- 1)"

definition splitext :: "string \<Rightarrow> string \<times> string" where
  "splitext p =
     (let sepIndex = rfind p CHR ''/'';
          dotIndex = rfind p CHR ''.''
      in if dotIndex > sepIndex \<and>
            list_ex (\<lambda>k. p ! k \<noteq> CHR ''.'') [nat (sepIndex + 1) ..< nat dotIndex]
         then (take (nat dotIndex) p, drop (nat dotIndex) p)
         else (p, []))"

text \<open>\<^verbatim>\<open>range(a, b)\<close> on integers.\<close>

definition py_range :: "int \<Rightarrow> int \<Rightarrow> int list" where
  "py_range a b = map (\<lambda>k. a + int k) [0 ..< nat (b - a)]"

subsection \<open>Arrays\<close>

text \<open>
  What the decoder returns (\<^verbatim>\<open>nib.load(...).get_data()\<close>) is a numpy array. Only its
  number of axes, its shape and its elements are read. The elements stay abstract
  (\<open>'a\<close>): slicing and rotation move them and never compute with them.
\<close>

record 'a vol3 =
  dimX3 :: nat
  dimY3 :: nat
  dimZ3 :: nat
  at3 :: "nat \<Rightarrow> nat \<Rightarrow> nat \<Rightarrow> 'a"

record 'a vol4 =
  dimX4 :: nat
  dimY4 :: nat
  dimZ4 :: nat
  dimT4 :: nat
  at4 :: "nat \<Rightarrow> nat \<Rightarrow> nat \<Rightarrow> nat \<Rightarrow> 'a"

datatype 'a ndarray = Arr3 "'a vol3" | Arr4 "'a vol4" | ArrOther nat

text \<open>A two-dimensional array: its shape and its rows.\<close>

record 'a array2 =
  nrows :: nat
  ncols :: nat
  cells :: "'a list list"

definition wf_array2 :: "'a array2 \<Rightarrow> bool" where
  "wf_array2 m = (length (cells m) = nrows m \<and> list_all (\<lambda>r. length r = ncols m) (cells m))"

text \<open>
  An integer index on an axis of length \<open>n\<close>: numpy accepts \<open>-n \<le> i < n\<close>, counts a
  negative index from the end and raises \<^verbatim>\<open>IndexError\<close> otherwise.
\<close>

definition in_axis :: "nat \<Rightarrow> int \<Rightarrow> bool" where
  "in_axis n i = (- int n \<le> i \<and> i < int n)"

definition norm_index :: "nat \<Rightarrow> int \<Rightarrow> nat" where
  "norm_index n i = nat (if i < 0 then i + int n else i)"

definition axis_index :: "nat \<Rightarrow> int \<Rightarrow> error + nat" where
  "axis_index n i = (if in_axis n i then Inr (norm_index n i) else Inl IndexError)"

text \<open>\<^verbatim>\<open>vol[:,:,:,f]\<close> and \<^verbatim>\<open>vol[:,:,i]\<close> at an index already in range.\<close>

definition frame_at :: "'a vol4 \<Rightarrow> nat \<Rightarrow> 'a vol3" where
  "frame_at v f =
     \<lparr>dimX3 = dimX4 v, dimY3 = dimY4 v, dimZ3 = dimZ4 v, at3 = (\<lambda>x y z. at4 v x y z f)\<rparr>"

definition slice_at :: "'a vol3 \<Rightarrow> nat \<Rightarrow> 'a array2" where
  "slice_at v i =
     \<lparr>nrows = dimX3 v, ncols = dimY3 v,
      cells = map (\<lambda>x. map (\<lambda>y. at3 v x y i) [0 ..< dimY3 v]) [0 ..< dimX3 v]\<rparr>"

definition take_frame :: "'a vol4 \<Rightarrow> int \<Rightarrow> error + 'a vol3" where
  "take_frame v f = map_sum id (frame_at v) (axis_index (dimT4 v) f)"

definition take_slice :: "'a vol3 \<Rightarrow> int \<Rightarrow> error + 'a array2" where
  "take_slice v i = map_sum id (slice_at v) (axis_index (dimZ3 v) i)"

text \<open>
  Modelled from the spec: \<^verbatim>\<open>np.rot90\<close> is numpy's and not part of the sources. The spec
  calls it the standard 90 degree counter-clockwise rotation; numpy computes it as the
  transpose of the array with its columns reversed, so that entry \<open>(i, j)\<close> of the result
  is entry \<open>(j, C - 1 - i)\<close> of an argument of shape \<open>(R, C)\<close>.
\<close>

definition rot90 :: "'a array2 \<Rightarrow> 'a array2" where
  "rot90 m =
     \<lparr>nrows = ncols m, ncols = nrows m,
      cells = map (\<lambda>i. map (\<lambda>j. cells m ! j ! (ncols m - 1 - i)) [0 ..< nrows m])
                  [0 ..< ncols m]\<rparr>"

subsection \<open>The converter object\<close>

text \<open>
  The keyword arguments of the constructor. A field is \<open>None\<close> when the caller does not
  pass the key; the values are the strings \<^verbatim>\<open>argparse\<close> delivers. The key
  \<^verbatim>\<open>showSlices\<close> is stored and never read, so it is left out.
\<close>

record kwargs =
  kw_inputFile :: "string option"
  kw_outputDir :: "string option"
  kw_outputFileStem :: "string option"
  kw_outputFileType :: "string option"
  kw_sliceToConvert :: "string option"
  kw_frameToConvert :: "string option"

text \<open>
  \<^verbatim>\<open>_sliceToConvert\<close> and \<^verbatim>\<open>_frameToConvert\<close> hold a string until the constructor has
  converted them and an integer afterwards.
\<close>

datatype pyval = PInt int | PStr string

record 'a med2image =
  str_inputFile :: string
  str_outputFileStem :: string
  str_outputFileType :: string
  str_outputDir :: string
  sliceToConvert :: pyval
  frameToConvert :: pyval
  b_4D :: bool
  b_3D :: bool
  Vnp_4DVol :: "'a vol4 option"
  Vnp_3DVol :: "'a vol3 option"
  b_convertMiddleSlice :: bool
  b_convertMiddleFrame :: bool

text \<open>
  Lines 117 to 125: \<^verbatim>\<open>x.lower() == 'm'\<close> sets the flag, otherwise \<^verbatim>\<open>int(x)\<close> is stored.
  Without the key the attribute is still the integer \<open>-1\<close> of line 84 or 85, which has no
  method \<^verbatim>\<open>lower\<close>.
\<close>

definition parse_selector :: "string option \<Rightarrow> error + (bool \<times> pyval)" where
  "parse_selector arg =
     (case arg of
        None \<Rightarrow> Inl AttributeError
      | Some s \<Rightarrow>
          if py_lower s = ''m'' then Inr (True, PStr s)
          else map_sum id (\<lambda>k. (False, PInt k)) (py_int s))"

text \<open>Lines 127 to 135: the output file type kept by the object.\<close>

definition resolve_outputFileType :: "string \<Rightarrow> string \<Rightarrow> string" where
  "resolve_outputFileType stem ftype =
     (let str_fileExtension = snd (splitext stem);
          str_fileExtension = (if ftype \<noteq> [] then ''.'' @ ftype else str_fileExtension);
          ftype = (if str_fileExtension \<noteq> [] \<and> ftype = [] then str_fileExtension else ftype);
          ftype = (if ftype = [] \<and> str_fileExtension = [] then ''.png'' else ftype)
      in ftype)"

definition med2image_init :: "kwargs \<Rightarrow> error + 'a med2image" where
  "med2image_init kw =
     (case parse_selector (kw_frameToConvert kw) of
        Inl e \<Rightarrow> Inl e
      | Inr (midFrame, frameSel) \<Rightarrow>
     (case parse_selector (kw_sliceToConvert kw) of
        Inl e \<Rightarrow> Inl e
      | Inr (midSlice, sliceSel) \<Rightarrow>
          Inr \<lparr>str_inputFile = (case kw_inputFile kw of None \<Rightarrow> [] | Some s \<Rightarrow> s),
               str_outputFileStem = (case kw_outputFileStem kw of None \<Rightarrow> [] | Some s \<Rightarrow> s),
               str_outputFileType =
                 resolve_outputFileType
                   (case kw_outputFileStem kw of None \<Rightarrow> [] | Some s \<Rightarrow> s)
                   (case kw_outputFileType kw of None \<Rightarrow> [] | Some s \<Rightarrow> s),
               str_outputDir = (case kw_outputDir kw of None \<Rightarrow> [] | Some s \<Rightarrow> s),
               sliceToConvert = sliceSel,
               frameToConvert = frameSel,
               b_4D = False,
               b_3D = False,
               Vnp_4DVol = None,
               Vnp_3DVol = None,
               b_convertMiddleSlice = midSlice,
               b_convertMiddleFrame = midFrame\<rparr>))"

text \<open>\<^verbatim>\<open>med2image_nii.__init__\<close>; \<open>data\<close> is what the decoder returned for the input file.\<close>

definition med2image_nii_init :: "kwargs \<Rightarrow> 'a ndarray \<Rightarrow> error + 'a med2image" where
  "med2image_nii_init kw data =
     (case med2image_init kw of
        Inl e \<Rightarrow> Inl e
      | Inr self \<Rightarrow>
          Inr (case data of
                 Arr4 v \<Rightarrow> self\<lparr>Vnp_4DVol := Some v, b_4D := True\<rparr>
               | Arr3 v \<Rightarrow> self\<lparr>Vnp_3DVol := Some v, b_3D := True\<rparr>
               | ArrOther n \<Rightarrow> self))"

subsection \<open>The run method of the NIfTI converter\<close>

text \<open>One call of \<^verbatim>\<open>pylab.imsave\<close>: the file written and the array saved in it.\<close>

record 'a job =
  job_file :: string
  job_image :: "'a array2"

text \<open>Lines 242 to 252: the name of the output file for frame \<open>f\<close> and slice \<open>i\<close>.\<close>

definition output_file :: "'a med2image \<Rightarrow> int \<Rightarrow> int \<Rightarrow> string" where
  "output_file self f i =
     (if b_4D self
      then str_outputDir self @ ''/'' @ str_outputFileStem self @ ''-frame'' @ fmt_03d f @
           ''-slice'' @ fmt_03d i @ ''.'' @ str_outputFileType self
      else str_outputDir self @ ''/'' @ str_outputFileStem self @
           ''-slice'' @ fmt_03d i @ ''.'' @ str_outputFileType self)"

text \<open>
  Lines 217 to 221 and 230 to 234. A selector equal to \<open>-1\<close> keeps the start and moves the
  end to the axis length; any other integer \<open>k\<close> gives the bounds \<open>k\<close> and \<open>k + 1\<close>. A
  string differs from \<open>-1\<close> and then fails in \<^verbatim>\<open>+ 1\<close>.
\<close>

definition frame_bounds :: "pyval \<Rightarrow> nat \<Rightarrow> error + (int \<times> int)" where
  "frame_bounds sel frames =
     (case sel of
        PInt k \<Rightarrow> if k = - 1 then Inr (0, int frames) else Inr (k, k + 1)
      | PStr s \<Rightarrow> Inl TypeError)"

definition slice_bounds :: "pyval \<Rightarrow> nat \<Rightarrow> int \<times> int \<Rightarrow> error + (int \<times> int)" where
  "slice_bounds sel slices cur =
     (case sel of
        PInt k \<Rightarrow> if k = - 1 then Inr (fst cur, int slices) else Inr (k, k + 1)
      | PStr s \<Rightarrow> Inl TypeError)"

text \<open>
  The inner loop (lines 237 to 256) over the slice indices still to do; \<open>out\<close> holds the
  jobs emitted so far. An exception ends the run and leaves what was written.
\<close>

fun slice_loop ::
  "'a med2image \<Rightarrow> int \<Rightarrow> 'a vol3 \<Rightarrow> int list \<Rightarrow> 'a job list \<Rightarrow> 'a job list \<times> error option"
where
  "slice_loop self f v [] out = (out, None)"
| "slice_loop self f v (i # rest) out =
     (case take_slice v i of
        Inl e \<Rightarrow> (out, Some e)
      | Inr imslice \<Rightarrow>
          slice_loop self f v rest
            (out @ [\<lparr>job_file = output_file self f i, job_image = rot90 imslice\<rparr>]))"

text \<open>
  Lines 224 to 226: the volume whose slices are taken in frame \<open>f\<close>, a frame of the 4D
  volume or the 3D volume the object holds (which is \<^verbatim>\<open>None\<close> when the data had
  neither three nor four axes).
\<close>

definition frame_volume :: "'a med2image \<Rightarrow> int \<Rightarrow> error + 'a vol3 option" where
  "frame_volume self f =
     (if b_4D self
      then (case Vnp_4DVol self of
              None \<Rightarrow> Inl TypeError
            | Some v4 \<Rightarrow> map_sum id Some (take_frame v4 f))
      else Inr (Vnp_3DVol self))"

text \<open>
  The outer loop (lines 223 to 256) over the frame indices still to do. The object
  (\<^verbatim>\<open>_Vnp_3DVol\<close>, \<^verbatim>\<open>_sliceToConvert\<close>) and the locals \<^verbatim>\<open>sliceStart\<close>, \<^verbatim>\<open>sliceEnd\<close>
  are carried from one frame to the next, as the method keeps them.
\<close>

fun frame_loop ::
  "'a med2image \<Rightarrow> int \<times> int \<Rightarrow> int list \<Rightarrow> 'a job list \<Rightarrow> 'a job list \<times> error option"
where
  "frame_loop self cur [] out = (out, None)"
| "frame_loop self cur (f # rest) out =
     (case frame_volume self f of
        Inl e \<Rightarrow> (out, Some e)
      | Inr None \<Rightarrow> (out, Some AttributeError)
      | Inr (Some v) \<Rightarrow>
          (let slices = dimZ3 v;
               sel = (if b_convertMiddleSlice self then PInt (int (slices div 2))
                      else sliceToConvert self);
               self = self\<lparr>Vnp_3DVol := Some v, sliceToConvert := sel\<rparr>
           in case slice_bounds sel slices cur of
                Inl e \<Rightarrow> (out, Some e)
              | Inr (sliceStart, sliceEnd) \<Rightarrow>
                  (case slice_loop self f v (py_range sliceStart sliceEnd) out of
                     (out, Some e) \<Rightarrow> (out, Some e)
                   | (out, None) \<Rightarrow> frame_loop self (sliceStart, sliceEnd) rest out)))"

text \<open>Lines 201 to 221: the frame count, the middle frame and the frame bounds.\<close>

definition frame_count :: "'a med2image \<Rightarrow> error + nat" where
  "frame_count self =
     (if b_4D self
      then (case Vnp_4DVol self of None \<Rightarrow> Inl AttributeError | Some v \<Rightarrow> Inr (dimT4 v))
      else Inr 1)"

definition med2image_nii_run :: "'a med2image \<Rightarrow> 'a job list \<times> error option" where
  "med2image_nii_run self =
     (case frame_count self of
        Inl e \<Rightarrow> ([], Some e)
      | Inr frames \<Rightarrow>
          (let self = (if b_convertMiddleFrame self
                       then self\<lparr>frameToConvert := PInt (int (frames div 2))\<rparr> else self)
           in case frame_bounds (frameToConvert self) frames of
                Inl e \<Rightarrow> ([], Some e)
              | Inr (frameStart, frameEnd) \<Rightarrow>
                  frame_loop self (0, 0) (py_range frameStart frameEnd) []))"

text \<open>
  \<^verbatim>\<open>med2image.run\<close>, the method of the base class, has a docstring and no statement.
\<close>

definition med2image_run :: "'a med2image \<Rightarrow> 'a job list \<times> error option" where
  "med2image_run self = ([], None)"

text \<open>Constructing the NIfTI converter and running it, as the main block does.\<close>

definition nii_convert :: "kwargs \<Rightarrow> 'a ndarray \<Rightarrow> 'a job list \<times> error option" where
  "nii_convert kw data =
     (case med2image_nii_init kw data of
        Inl e \<Rightarrow> ([], Some e)
      | Inr self \<Rightarrow> med2image_nii_run self)"

subsection \<open>The main block\<close>

text \<open>
  The parsed command line, with the defaults of \<^verbatim>\<open>argparse\<close> filled in by the caller
  (\<^verbatim>\<open>'./'\<close>, \<^verbatim>\<open>'none'\<close>, \<^verbatim>\<open>'-1'\<close>, \<^verbatim>\<open>'-1'\<close>); the input file and the output
  stem, which have no default, are taken as given. The decoder \<^verbatim>\<open>nib.load\<close> is the
  parameter \<open>load\<close>, and a file it cannot read is outside the model.
\<close>

record args =
  inputFile :: string
  outputFileStem :: string
  outputDir :: string
  outputFileType :: string
  sliceToConvert_arg :: string
  frameToConvert_arg :: string
  man :: bool
  synopsis :: bool

definition main :: "(string \<Rightarrow> 'a ndarray) \<Rightarrow> args \<Rightarrow> 'a job list \<times> error option" where
  "main load a =
     (if man a \<or> synopsis a then ([], Some (SystemExit 1))
      else
        (let str_fileExtension = snd (splitext (inputFile a));
             b_niftiExt = (str_fileExtension = ''.nii'' \<or> str_fileExtension = ''.gz'')
         in if b_niftiExt
            then nii_convert
                   \<lparr>kw_inputFile = Some (inputFile a),
                    kw_outputDir = Some (outputDir a),
                    kw_outputFileStem = Some (outputFileStem a),
                    kw_outputFileType = Some (outputFileType a),
                    kw_sliceToConvert = Some (sliceToConvert_arg a),
                    kw_frameToConvert = Some (frameToConvert_arg a)\<rparr>
                   (load (inputFile a))
            else (case (med2image_init
                   \<lparr>kw_inputFile = Some (inputFile a),
                    kw_outputDir = None,
                    kw_outputFileStem = Some (outputFileStem a),
                    kw_outputFileType = Some (outputFileType a),
                    kw_sliceToConvert = Some (sliceToConvert_arg a),
                    kw_frameToConvert = None\<rparr> :: error + 'a med2image) of
                    Inl e \<Rightarrow> ([], Some e)
                  | Inr self \<Rightarrow> med2image_run self)))"

subsection \<open>Derived notions used in the statements\<close>

text \<open>
  The list a selector \<open>k\<close> stands for on an axis of length \<open>n\<close>, as the bounds of lines
  217 to 221 and 230 to 234 give it when the start is still \<open>0\<close>.
\<close>

definition sel_range :: "nat \<Rightarrow> int \<Rightarrow> int list" where
  "sel_range n k = (if k = - 1 then py_range 0 (int n) else [k])"

text \<open>The job of one iteration of the inner loop, for a file naming function \<open>nm\<close>.\<close>

definition mk_job :: "(int \<Rightarrow> int \<Rightarrow> string) \<Rightarrow> int \<Rightarrow> 'a vol3 \<Rightarrow> int \<Rightarrow> 'a job" where
  "mk_job nm f v i =
     \<lparr>job_file = nm f i, job_image = rot90 (slice_at v (norm_index (dimZ3 v) i))\<rparr>"

text \<open>
  The list the outer loop iterates over (\<^verbatim>\<open>range(frameStart, frameEnd)\<close>), and the list
  the inner loop iterates over in a frame with volume \<open>v\<close> when the locals
  \<^verbatim>\<open>sliceStart\<close>, \<^verbatim>\<open>sliceEnd\<close> hold \<open>cur\<close> on entry.
\<close>

definition frame_range :: "'a med2image \<Rightarrow> error + int list" where
  "frame_range self =
     (case frame_count self of
        Inl e \<Rightarrow> Inl e
      | Inr frames \<Rightarrow>
          map_sum id (\<lambda>(a, b). py_range a b)
            (frame_bounds
               (if b_convertMiddleFrame self then PInt (int (frames div 2))
                else frameToConvert self) frames))"

definition slice_range :: "'a med2image \<Rightarrow> 'a vol3 \<Rightarrow> int \<times> int \<Rightarrow> error + int list" where
  "slice_range self v cur =
     map_sum id (\<lambda>(a, b). py_range a b)
       (slice_bounds
          (if b_convertMiddleSlice self then PInt (int (dimZ3 v div 2))
           else sliceToConvert self) (dimZ3 v) cur)"

text \<open>
  A selector string the constructor accepts: \<^verbatim>\<open>m\<close> in either case, or an integer literal
  (\<open>-1\<close> for all, any other for one index).
\<close>

definition selector_ok :: "string \<Rightarrow> bool" where
  "selector_ok s = (py_lower s = ''m'' \<or> (case py_int s of Inl e \<Rightarrow> False | Inr k \<Rightarrow> True))"

subsection \<open>Example inputs\<close>

text \<open>Small volumes whose entries spell out their own coordinates, and a caller.\<close>

definition demo_vol3 :: "nat vol3" where
  "demo_vol3 = \<lparr>dimX3 = 2, dimY3 = 2, dimZ3 = 3, at3 = (\<lambda>x y z. 100 * x + 10 * y + z)\<rparr>"

definition demo_vol4 :: "nat vol4" where
  "demo_vol4 =
     \<lparr>dimX4 = 1, dimY4 = 2, dimZ4 = 2, dimT4 = 3,
      at4 = (\<lambda>x y z t. 1000 * t + 100 * x + 10 * y + z)\<rparr>"

definition demo_kw :: "string \<Rightarrow> string \<Rightarrow> kwargs" where
  "demo_kw s f =
     \<lparr>kw_inputFile = Some ''scan.nii'', kw_outputDir = Some ''out'',
      kw_outputFileStem = Some ''vol'', kw_outputFileType = Some ''png'',
      kw_sliceToConvert = Some s, kw_frameToConvert = Some f\<rparr>"

text \<open>The objects the constructor builds from \<open>demo_kw\<close> on the two volumes.\<close>

definition demo_self3 :: "bool \<times> pyval \<Rightarrow> bool \<times> pyval \<Rightarrow> nat med2image" where
  "demo_self3 s f =
     \<lparr>str_inputFile = ''scan.nii'', str_outputFileStem = ''vol'', str_outputFileType = ''png'',
      str_outputDir = ''out'', sliceToConvert = snd s, frameToConvert = snd f,
      b_4D = False, b_3D = True, Vnp_4DVol = None, Vnp_3DVol = Some demo_vol3,
      b_convertMiddleSlice = fst s, b_convertMiddleFrame = fst f\<rparr>"

definition demo_self4 :: "bool \<times> pyval \<Rightarrow> bool \<times> pyval \<Rightarrow> nat med2image" where
  "demo_self4 s f =
     \<lparr>str_inputFile = ''scan.nii'', str_outputFileStem = ''vol'', str_outputFileType = ''png'',
      str_outputDir = ''out'', sliceToConvert = snd s, frameToConvert = snd f,
      b_4D = True, b_3D = False, Vnp_4DVol = Some demo_vol4, Vnp_3DVol = None,
      b_convertMiddleSlice = fst s, b_convertMiddleFrame = fst f\<rparr>"

definition demo_array2 :: "nat array2" where
  "demo_array2 = \<lparr>nrows = 2, ncols = 3, cells = [[1, 2, 3], [4, 5, 6]]\<rparr>"

text \<open>A 3D volume without slices, and the object built on it for the slice selector \<^verbatim>\<open>m\<close>.\<close>

definition demo_empty3 :: "nat vol3" where
  "demo_empty3 = \<lparr>dimX3 = 2, dimY3 = 2, dimZ3 = 0, at3 = (\<lambda>x y z. 0)\<rparr>"

definition demo_self_empty :: "nat med2image" where
  "demo_self_empty =
     (demo_self3 (True, PStr ''m'') (False, PInt (- 1)))\<lparr>Vnp_3DVol := Some demo_empty3\<rparr>"

text \<open>
  A caller that sets the output stem and, optionally, the output type, asking for slice
  \<open>0\<close>; and command lines for the input file \<open>i\<close>, the stem \<open>out.jpg\<close> and the defaults
  of every other option.
\<close>

definition demo_kw_out :: "string \<Rightarrow> string option \<Rightarrow> kwargs" where
  "demo_kw_out stem ftype =
     \<lparr>kw_inputFile = Some ''scan.nii'', kw_outputDir = Some ''out'',
      kw_outputFileStem = Some stem, kw_outputFileType = ftype,
      kw_sliceToConvert = Some ''0'', kw_frameToConvert = Some ''-1''\<rparr>"

definition demo_args :: "string \<Rightarrow> args" where
  "demo_args i =
     \<lparr>inputFile = i, outputFileStem = ''out.jpg'', outputDir = ''./'',
      outputFileType = ''none'', sliceToConvert_arg = ''-1'', frameToConvert_arg = ''-1'',
      man = False, synopsis = False\<rparr>"

section \<open>Properties\<close>

subsection \<open>Selector strings\<close>

lemma lower_char_m: "lower_char c = CHR ''m'' \<Longrightarrow> c = CHR ''m'' \<or> c = CHR ''M''"
  by (simp add: lower_char_def split: if_splits)

lemma py_lower_m: "py_lower s = ''m'' \<Longrightarrow> s = ''m'' \<or> s = ''M''"
  by (cases s) (auto simp: py_lower_def dest: lower_char_m)

lemma py_int_m: "py_lower s = ''m'' \<Longrightarrow> py_int s = Inl ValueError"
  by (drule py_lower_m)
     (auto simp: py_int_def strip_def is_space_def parse_digits_def is_digit_def digit_val_def)

lemma parse_selector_int: "py_int s = Inr k \<Longrightarrow> parse_selector (Some s) = Inr (False, PInt k)"
  using py_int_m [of s] by (auto simp: parse_selector_def)

lemma parse_selector_m: "py_lower s = ''m'' \<Longrightarrow> parse_selector (Some s) = Inr (True, PStr s)"
  by (simp add: parse_selector_def)

lemma parse_selector_cases:
  "parse_selector a = Inr (m, x) \<Longrightarrow>
     (\<exists>s. a = Some s \<and> py_lower s = ''m'' \<and> m \<and> x = PStr s) \<or>
     (\<exists>s k. a = Some s \<and> py_int s = Inr k \<and> \<not> m \<and> x = PInt k)"
  by (cases a; cases "py_int (the a)") (auto simp: parse_selector_def split: if_splits)

subsection \<open>File names\<close>

text \<open>Below a thousand, \<^verbatim>\<open>%03d\<close> prints exactly three characters.\<close>

lemma dec_length:
  "n < 10 \<Longrightarrow> length (dec n) = 1"
  "10 \<le> n \<Longrightarrow> n < 100 \<Longrightarrow> length (dec n) = 2"
  "100 \<le> n \<Longrightarrow> n < 1000 \<Longrightarrow> length (dec n) = 3"
proof -
  show one: "length (dec n) = 1" if "n < 10" for n
    using that by (subst dec.simps) simp
  show two: "length (dec n) = 2" if "10 \<le> n" "n < 100" for n
  proof -
    have "n div 10 < 10" using that by simp
    then show ?thesis using that one [of "n div 10"] by (subst dec.simps) simp
  qed
  show "length (dec n) = 3" if "100 \<le> n" "n < 1000"
  proof -
    have "10 \<le> n div 10" "n div 10 < 100" using that by simp_all
    then show ?thesis using that two [of "n div 10"] by (subst dec.simps) simp
  qed
qed

lemma fmt_03d_width: "0 \<le> n \<Longrightarrow> n < 1000 \<Longrightarrow> length (fmt_03d n) = 3"
proof -
  assume n: "0 \<le> n" "n < 1000"
  consider "nat n < 10" | "10 \<le> nat n" "nat n < 100" | "100 \<le> nat n" "nat n < 1000"
    using n by linarith
  then show ?thesis
    using n by cases (simp_all add: fmt_03d_def Let_def dec_length)
qed

subsection \<open>Ranges and indices\<close>

lemma py_range_single: "py_range k (k + 1) = [k]"
  by (simp add: py_range_def)

lemma py_range_nat: "py_range 0 (int n) = map int [0 ..< n]"
  by (simp add: py_range_def)

lemma all_in_axis_range: "list_all (in_axis n) (py_range 0 (int n))"
  by (simp add: py_range_nat list_all_iff in_axis_def)

lemma slice_bounds_range:
  "k = - 1 \<longrightarrow> fst cur = 0 \<Longrightarrow>
   \<exists>a b. slice_bounds (PInt k) n cur = Inr (a, b) \<and> py_range a b = sel_range n k \<and>
      (k = - 1 \<longrightarrow> a = 0)"
  by (simp add: slice_bounds_def sel_range_def py_range_single)

lemma frame_bounds_range:
  "\<exists>a b. frame_bounds (PInt j) n = Inr (a, b) \<and> py_range a b = sel_range n j"
  by (simp add: frame_bounds_def sel_range_def py_range_single)

text \<open>
  The bounds a frame leaves behind are those the next frame computes again: every frame
  of a run iterates over the same slice indices.
\<close>

lemma slice_bounds_idem:
  "slice_bounds sel n cur = Inr c \<Longrightarrow> slice_bounds sel n c = Inr c"
  by (cases sel) (auto simp: slice_bounds_def split: if_splits)

subsection \<open>The loops in closed form\<close>

lemma output_file_upd [simp]:
  "output_file (self\<lparr>Vnp_3DVol := a, sliceToConvert := b\<rparr>) = output_file self"
  by (simp add: output_file_def fun_eq_iff)

lemma output_file_upd_frame [simp]:
  "output_file (self\<lparr>frameToConvert := a\<rparr>) = output_file self"
  by (simp add: output_file_def fun_eq_iff)

lemma mk_job_3D:
  "\<not> b_4D self \<Longrightarrow> mk_job (output_file self) f v = mk_job (output_file self) 0 v"
  by (simp add: mk_job_def output_file_def fun_eq_iff)

text \<open>
  The inner loop emits a job for every index up to the first one that is out of range,
  and fails there.
\<close>

lemma slice_loop_eq:
  "slice_loop self f v is out =
     (out @ map (mk_job (output_file self) f v) (takeWhile (in_axis (dimZ3 v)) is),
      if list_all (in_axis (dimZ3 v)) is then None else Some IndexError)"
  by (induction "is" arbitrary: out)
     (auto simp: take_slice_def axis_index_def mk_job_def)

text \<open>
  The outer loop on a 3D volume. The frame indices only count the iterations: each one
  runs the inner loop over the same slice indices of the same volume.
\<close>

lemma frame_loop_3D:
  assumes "\<not> b_4D self" "Vnp_3DVol self = Some v"
    and "(if b_convertMiddleSlice self then PInt (int (dimZ3 v div 2)) else sliceToConvert self) = PInt k"
    and "k = - 1 \<longrightarrow> fst cur = 0"
    and "output_file self = nm"
  shows "frame_loop self cur fs out =
     (if list_all (in_axis (dimZ3 v)) (sel_range (dimZ3 v) k)
      then (out @ concat (map (\<lambda>f. map (mk_job nm f v) (sel_range (dimZ3 v) k)) fs), None)
      else if fs = [] then (out, None) else (out, Some IndexError))"
  using assms
proof (induction fs arbitrary: self cur out)
  case Nil
  then show ?case by simp
next
  case (Cons f fs)
  let ?R = "sel_range (dimZ3 v) k"
  let ?self = "self\<lparr>Vnp_3DVol := Some v, sliceToConvert := PInt k\<rparr>"
  from slice_bounds_range [OF Cons.prems(4), of "dimZ3 v"]
  obtain a b where ab: "slice_bounds (PInt k) (dimZ3 v) cur = Inr (a, b)"
    "py_range a b = ?R" "k = - 1 \<longrightarrow> a = 0" by blast
  have IH: "frame_loop ?self (a, b) fs out' =
     (if list_all (in_axis (dimZ3 v)) ?R
      then (out' @ concat (map (\<lambda>f. map (mk_job nm f v) ?R) fs), None)
      else if fs = [] then (out', None) else (out', Some IndexError))" for out'
    using Cons.prems ab(3) by (intro Cons.IH) auto
  have step: "frame_loop self cur (f # fs) out =
     (case slice_loop ?self f v ?R out of
        (out', Some e) \<Rightarrow> (out', Some e)
      | (out', None) \<Rightarrow> frame_loop ?self (a, b) fs out')"
    using Cons.prems(1,2,3) ab(1,2) by (simp add: Let_def frame_volume_def)
  show ?case
  proof (cases "list_all (in_axis (dimZ3 v)) ?R")
    case True
    then have tw: "takeWhile (in_axis (dimZ3 v)) ?R = ?R"
      by (simp add: list_all_iff)
    show ?thesis
      using True Cons.prems(5) by (simp add: step slice_loop_eq tw IH del: frame_loop.simps)
  next
    case False
    then have k: "?R = [k]" "\<not> in_axis (dimZ3 v) k"
      using all_in_axis_range [of "dimZ3 v"] by (auto simp: sel_range_def split: if_splits)
    show ?thesis
      using False k by (simp add: step slice_loop_eq del: frame_loop.simps)
  qed
qed

text \<open>
  The outer loop on a 4D volume: the frames up to the first index out of range, each with
  the same slice indices.
\<close>

lemma frame_loop_4D:
  assumes "b_4D self" "Vnp_4DVol self = Some w"
    and "(if b_convertMiddleSlice self then PInt (int (dimZ4 w div 2)) else sliceToConvert self) = PInt k"
    and "k = - 1 \<longrightarrow> fst cur = 0"
    and "output_file self = nm"
  shows "frame_loop self cur fs out =
     (if list_all (in_axis (dimZ4 w)) (sel_range (dimZ4 w) k)
      then (out @ concat (map (\<lambda>f. map (mk_job nm f (frame_at w (norm_index (dimT4 w) f)))
                                        (sel_range (dimZ4 w) k))
                              (takeWhile (in_axis (dimT4 w)) fs)),
            if list_all (in_axis (dimT4 w)) fs then None else Some IndexError)
      else if fs = [] then (out, None) else (out, Some IndexError))"
  using assms
proof (induction fs arbitrary: self cur out)
  case Nil
  then show ?case by simp
next
  case (Cons f fs)
  let ?Z = "dimZ4 w"
  let ?R = "sel_range ?Z k"
  show ?case
  proof (cases "in_axis (dimT4 w) f")
    case False
    then show ?thesis
      using Cons.prems(1,2) by (simp add: frame_volume_def take_frame_def axis_index_def)
  next
    case inax: True
    let ?v = "frame_at w (norm_index (dimT4 w) f)"
    let ?self = "self\<lparr>Vnp_3DVol := Some ?v, sliceToConvert := PInt k\<rparr>"
    have Z: "dimZ3 ?v = ?Z" by (simp add: frame_at_def)
    from slice_bounds_range [OF Cons.prems(4), of ?Z]
    obtain a b where ab: "slice_bounds (PInt k) ?Z cur = Inr (a, b)"
      "py_range a b = ?R" "k = - 1 \<longrightarrow> a = 0" by blast
    have IH: "frame_loop ?self (a, b) fs out' =
     (if list_all (in_axis ?Z) ?R
      then (out' @ concat (map (\<lambda>f. map (mk_job nm f (frame_at w (norm_index (dimT4 w) f))) ?R)
                              (takeWhile (in_axis (dimT4 w)) fs)),
            if list_all (in_axis (dimT4 w)) fs then None else Some IndexError)
      else if fs = [] then (out', None) else (out', Some IndexError))" for out'
      using Cons.prems ab(3) by (intro Cons.IH) auto
    have step: "frame_loop self cur (f # fs) out =
       (case slice_loop ?self f ?v ?R out of
          (out', Some e) \<Rightarrow> (out', Some e)
        | (out', None) \<Rightarrow> frame_loop ?self (a, b) fs out')"
      using Cons.prems(1,2,3) ab(1,2) inax Z
      by (simp add: Let_def frame_volume_def take_frame_def axis_index_def)
    show ?thesis
    proof (cases "list_all (in_axis ?Z) ?R")
      case True
      then have tw: "takeWhile (in_axis ?Z) ?R = ?R"
        by (simp add: list_all_iff)
      show ?thesis
        using True Cons.prems(5) inax
        by (simp add: step slice_loop_eq Z tw IH del: frame_loop.simps)
    next
      case False
      then have k: "?R = [k]" "\<not> in_axis ?Z k"
        using all_in_axis_range [of ?Z] by (auto simp: sel_range_def split: if_splits)
      show ?thesis
        using False k by (simp add: step slice_loop_eq Z del: frame_loop.simps)
    qed
  qed
qed

subsection \<open>The run method in closed form\<close>

lemma run_unfold:
  assumes "frame_count self = Inr n"
    and "self' = (if b_convertMiddleFrame self
                  then self\<lparr>frameToConvert := PInt (int (n div 2))\<rparr> else self)"
    and "frame_bounds (frameToConvert self') n = Inr (a, b)"
  shows "med2image_nii_run self = frame_loop self' (0, 0) (py_range a b) []"
  using assms by (simp add: med2image_nii_run_def Let_def del: frame_loop.simps)

lemma run_3D:
  assumes "\<not> b_4D self" "Vnp_3DVol self = Some v"
    and "(if b_convertMiddleSlice self then PInt (int (dimZ3 v div 2)) else sliceToConvert self) = PInt k"
    and "b_convertMiddleFrame self \<or> frameToConvert self = PInt j"
  shows "med2image_nii_run self =
     (if list_all (in_axis (dimZ3 v)) (sel_range (dimZ3 v) k)
      then (map (mk_job (output_file self) 0 v) (sel_range (dimZ3 v) k), None)
      else ([], Some IndexError))"
proof -
  define n :: nat where "n = 1"
  define self' where "self' = (if b_convertMiddleFrame self
                       then self\<lparr>frameToConvert := PInt (int (n div 2))\<rparr> else self)"
  have "\<exists>j'. frameToConvert self' = PInt j'"
    using assms(4) by (cases "b_convertMiddleFrame self") (simp_all add: self'_def)
  then obtain j' where j': "frameToConvert self' = PInt j'" ..
  have f: "\<exists>f. sel_range n j' = [f]"
    by (simp add: sel_range_def py_range_def n_def)
  then obtain f where f: "sel_range n j' = [f]" ..
  from frame_bounds_range [of j' n] obtain a b where
    ab: "frame_bounds (PInt j') n = Inr (a, b)" "py_range a b = [f]" using f by auto
  have fc: "frame_count self = Inr n"
    using assms(1) by (simp add: frame_count_def n_def)
  have s': "\<not> b_4D self'" "Vnp_3DVol self' = Some v"
    "(if b_convertMiddleSlice self' then PInt (int (dimZ3 v div 2)) else sliceToConvert self') = PInt k"
    "output_file self' = output_file self"
    using assms(1,2,3) by (auto simp: self'_def)
  have "med2image_nii_run self = frame_loop self' (0, 0) [f] []"
    using run_unfold [OF fc self'_def] j' ab by simp
  also have "\<dots> = (if list_all (in_axis (dimZ3 v)) (sel_range (dimZ3 v) k)
      then (map (mk_job (output_file self) f v) (sel_range (dimZ3 v) k), None)
      else ([], Some IndexError))"
    using frame_loop_3D [OF s'(1,2,3) _ s'(4), of "(0, 0)" "[f]" "[]"] by simp
  finally show ?thesis using mk_job_3D [OF assms(1), of f v] by simp
qed

lemma run_4D:
  assumes "b_4D self" "Vnp_4DVol self = Some w"
    and "(if b_convertMiddleSlice self then PInt (int (dimZ4 w div 2)) else sliceToConvert self) = PInt k"
    and "(if b_convertMiddleFrame self then PInt (int (dimT4 w div 2)) else frameToConvert self) = PInt j"
  shows "med2image_nii_run self =
     (if list_all (in_axis (dimZ4 w)) (sel_range (dimZ4 w) k)
      then (concat (map (\<lambda>f. map (mk_job (output_file self) f (frame_at w (norm_index (dimT4 w) f)))
                                        (sel_range (dimZ4 w) k))
                              (takeWhile (in_axis (dimT4 w)) (sel_range (dimT4 w) j))),
            if list_all (in_axis (dimT4 w)) (sel_range (dimT4 w) j) then None else Some IndexError)
      else if sel_range (dimT4 w) j = [] then ([], None) else ([], Some IndexError))"
proof -
  define self' where "self' = (if b_convertMiddleFrame self
                       then self\<lparr>frameToConvert := PInt (int (dimT4 w div 2))\<rparr> else self)"
  have j': "frameToConvert self' = PInt j"
    using assms(4) by (auto simp: self'_def split: if_splits)
  from frame_bounds_range [of j "dimT4 w"] obtain a b where
    ab: "frame_bounds (PInt j) (dimT4 w) = Inr (a, b)" "py_range a b = sel_range (dimT4 w) j" by auto
  have s': "b_4D self'" "Vnp_4DVol self' = Some w"
    "(if b_convertMiddleSlice self' then PInt (int (dimZ4 w div 2)) else sliceToConvert self') = PInt k"
    "output_file self' = output_file self"
    using assms(1,2,3) by (auto simp: self'_def)
  have fc: "frame_count self = Inr (dimT4 w)"
    using assms(1,2) by (simp add: frame_count_def)
  have "med2image_nii_run self = frame_loop self' (0, 0) (sel_range (dimT4 w) j) []"
    using run_unfold [OF fc self'_def] j' ab by simp
  then show ?thesis
    using frame_loop_4D [OF s'(1,2,3) _ s'(4), of "(0, 0)" "sel_range (dimT4 w) j" "[]"] by simp
qed

subsection \<open>What the constructor establishes\<close>

lemma init_fields:
  assumes "med2image_init kw = Inr (self :: 'a med2image)"
  shows "parse_selector (kw_frameToConvert kw) = Inr (b_convertMiddleFrame self, frameToConvert self)"
    and "parse_selector (kw_sliceToConvert kw) = Inr (b_convertMiddleSlice self, sliceToConvert self)"
    and "\<not> b_4D self" and "\<not> b_3D self" and "Vnp_4DVol self = None" and "Vnp_3DVol self = None"
    and "str_outputDir self = (case kw_outputDir kw of None \<Rightarrow> [] | Some s \<Rightarrow> s)"
    and "str_outputFileStem self = (case kw_outputFileStem kw of None \<Rightarrow> [] | Some s \<Rightarrow> s)"
    and "str_outputFileType self =
           resolve_outputFileType (case kw_outputFileStem kw of None \<Rightarrow> [] | Some s \<Rightarrow> s)
             (case kw_outputFileType kw of None \<Rightarrow> [] | Some s \<Rightarrow> s)"
  using assms by (auto simp: med2image_init_def split: sum.splits prod.splits)

lemma nii_init_Arr3:
  assumes "med2image_nii_init kw (Arr3 v) = Inr self"
  shows "parse_selector (kw_frameToConvert kw) = Inr (b_convertMiddleFrame self, frameToConvert self)"
    and "parse_selector (kw_sliceToConvert kw) = Inr (b_convertMiddleSlice self, sliceToConvert self)"
    and "\<not> b_4D self" and "Vnp_3DVol self = Some v"
proof -
  from assms obtain self0 :: "'a med2image" where
    s0: "med2image_init kw = Inr self0" "self = self0\<lparr>Vnp_3DVol := Some v, b_3D := True\<rparr>"
    by (auto simp: med2image_nii_init_def split: sum.splits)
  from init_fields(1-3) [OF s0(1)] s0(2)
  show "parse_selector (kw_frameToConvert kw) = Inr (b_convertMiddleFrame self, frameToConvert self)"
    and "parse_selector (kw_sliceToConvert kw) = Inr (b_convertMiddleSlice self, sliceToConvert self)"
    and "\<not> b_4D self" and "Vnp_3DVol self = Some v"
    by simp_all
qed

lemma nii_init_Arr4:
  assumes "med2image_nii_init kw (Arr4 w) = Inr self"
  shows "parse_selector (kw_frameToConvert kw) = Inr (b_convertMiddleFrame self, frameToConvert self)"
    and "parse_selector (kw_sliceToConvert kw) = Inr (b_convertMiddleSlice self, sliceToConvert self)"
    and "b_4D self" and "Vnp_4DVol self = Some w"
proof -
  from assms obtain self0 :: "'a med2image" where
    s0: "med2image_init kw = Inr self0" "self = self0\<lparr>Vnp_4DVol := Some w, b_4D := True\<rparr>"
    by (auto simp: med2image_nii_init_def split: sum.splits)
  from init_fields(1-2) [OF s0(1)] s0(2)
  show "parse_selector (kw_frameToConvert kw) = Inr (b_convertMiddleFrame self, frameToConvert self)"
    and "parse_selector (kw_sliceToConvert kw) = Inr (b_convertMiddleSlice self, sliceToConvert self)"
    and "b_4D self" and "Vnp_4DVol self = Some w"
    by simp_all
qed

lemma selector_int:
  assumes "parse_selector a = Inr (m, x)" "a = Some s" "py_int s = Inr k"
  shows "\<not> m" "x = PInt k"
  using assms parse_selector_int [of s k] by auto

lemma selector_m:
  assumes "parse_selector a = Inr (m, x)" "a = Some s" "py_lower s = ''m''"
  shows "m"
  using assms parse_selector_m [of s] by auto

lemma selector_valid: "parse_selector a = Inr (m, x) \<Longrightarrow> m \<or> (\<exists>k. x = PInt k)"
  by (drule parse_selector_cases) auto

subsection \<open>The example inputs evaluated\<close>

lemma py_int_examples:
  "py_int ''-1'' = Inr (- 1)" "py_int ''-2'' = Inr (- 2)" "py_int ''-4'' = Inr (- 4)"
  "py_int ''1'' = Inr 1" "py_int ''3'' = Inr 3" "py_int ''7'' = Inr 7"
  by (simp_all add: py_int_def strip_def is_space_def parse_digits_def is_digit_def
      digit_val_def)

lemma parse_selector_examples:
  "parse_selector (Some ''-1'') = Inr (False, PInt (- 1))"
  "parse_selector (Some ''-2'') = Inr (False, PInt (- 2))"
  "parse_selector (Some ''-4'') = Inr (False, PInt (- 4))"
  "parse_selector (Some ''1'') = Inr (False, PInt 1)"
  "parse_selector (Some ''3'') = Inr (False, PInt 3)"
  "parse_selector (Some ''7'') = Inr (False, PInt 7)"
  "parse_selector (Some ''m'') = Inr (True, PStr ''m'')"
  by (simp_all add: parse_selector_int py_int_examples)
     (simp add: parse_selector_def py_lower_def lower_char_def)

lemma demo_type: "resolve_outputFileType ''vol'' ''png'' = ''png''"
  by (simp add: resolve_outputFileType_def)

lemma demo_init3:
  assumes "parse_selector (Some s) = Inr ps" "parse_selector (Some f) = Inr pf"
  shows "med2image_nii_init (demo_kw s f) (Arr3 demo_vol3) = Inr (demo_self3 ps pf)"
  using assms
  by (cases ps; cases pf)
     (simp add: med2image_nii_init_def med2image_init_def demo_kw_def demo_self3_def demo_type)

lemma demo_init4:
  assumes "parse_selector (Some s) = Inr ps" "parse_selector (Some f) = Inr pf"
  shows "med2image_nii_init (demo_kw s f) (Arr4 demo_vol4) = Inr (demo_self4 ps pf)"
  using assms
  by (cases ps; cases pf)
     (simp add: med2image_nii_init_def med2image_init_def demo_kw_def demo_self4_def demo_type)

lemma demo_kw_sel [simp]:
  "kw_sliceToConvert (demo_kw s f) = Some s" "kw_frameToConvert (demo_kw s f) = Some f"
  by (simp_all add: demo_kw_def)

lemma takeWhile_all: "list_all P xs \<Longrightarrow> takeWhile P xs = xs"
  by (simp add: list_all_iff)

lemma length_concat_const: "length (concat (map (\<lambda>f. map (g f) ys) xs)) = length xs * length ys"
  by (induction xs) simp_all

lemma sel_range_index: "k \<noteq> - 1 \<Longrightarrow> sel_range n k = [k]"
  by (simp add: sel_range_def)

lemma sel_range_all: "sel_range n (- 1) = map int [0 ..< n]"
  by (simp add: sel_range_def py_range_nat)

lemma list_all_in_axis_all: "list_all (in_axis n) (map int [0 ..< n])"
  using all_in_axis_range [of n] by (simp add: py_range_nat)

lemma middle_in_axis: "0 < n \<Longrightarrow> in_axis n (int (n div 2))"
  by (simp add: in_axis_def) 

lemma norm_index_nat [simp]: "norm_index n (int i) = i"
  by (simp add: norm_index_def)

lemma mk_job_3D_eq:
  "\<not> b_4D self \<Longrightarrow> mk_job (output_file self) f v i =
     \<lparr>job_file = str_outputDir self @ ''/'' @ str_outputFileStem self @
                  ''-slice'' @ fmt_03d i @ ''.'' @ str_outputFileType self,
      job_image = rot90 (slice_at v (norm_index (dimZ3 v) i))\<rparr>"
  by (simp add: mk_job_def output_file_def)

lemma mk_job_4D_eq:
  "b_4D self \<Longrightarrow> mk_job (output_file self) f v i =
     \<lparr>job_file = str_outputDir self @ ''/'' @ str_outputFileStem self @
                  ''-frame'' @ fmt_03d f @ ''-slice'' @ fmt_03d i @ ''.'' @ str_outputFileType self,
      job_image = rot90 (slice_at v (norm_index (dimZ3 v) i))\<rparr>"
  by (simp add: mk_job_def output_file_def)

lemma dimZ3_frame_at [simp]: "dimZ3 (frame_at w t) = dimZ4 w"
  by (simp add: frame_at_def)

lemma demo_dims [simp]:
  "dimZ3 demo_vol3 = 3" "dimZ4 demo_vol4 = 2" "dimT4 demo_vol4 = 3"
  by (simp_all add: demo_vol3_def demo_vol4_def)

lemma selector_ok_parse: "selector_ok s \<Longrightarrow> \<exists>m x. parse_selector (Some s) = Inr (m, x)"
  by (cases "py_int s") (auto simp: selector_ok_def parse_selector_def)

lemma nii_init_strs:
  assumes "med2image_nii_init kw data = Inr self"
  shows "str_outputDir self = (case kw_outputDir kw of None \<Rightarrow> [] | Some s \<Rightarrow> s)"
    and "str_outputFileStem self = (case kw_outputFileStem kw of None \<Rightarrow> [] | Some s \<Rightarrow> s)"
    and "str_outputFileType self =
           resolve_outputFileType (case kw_outputFileStem kw of None \<Rightarrow> [] | Some s \<Rightarrow> s)
             (case kw_outputFileType kw of None \<Rightarrow> [] | Some s \<Rightarrow> s)"
proof -
  from assms obtain self0 :: "'a med2image" where
    s0: "med2image_init kw = Inr self0"
      "self = (case data of Arr4 v \<Rightarrow> self0\<lparr>Vnp_4DVol := Some v, b_4D := True\<rparr>
               | Arr3 v \<Rightarrow> self0\<lparr>Vnp_3DVol := Some v, b_3D := True\<rparr>
               | ArrOther n \<Rightarrow> self0)"
    by (auto simp: med2image_nii_init_def split: sum.splits)
  from init_fields(7-9) [OF s0(1)] s0(2)
  show "str_outputDir self = (case kw_outputDir kw of None \<Rightarrow> [] | Some s \<Rightarrow> s)"
    and "str_outputFileStem self = (case kw_outputFileStem kw of None \<Rightarrow> [] | Some s \<Rightarrow> s)"
    and "str_outputFileType self =
           resolve_outputFileType (case kw_outputFileStem kw of None \<Rightarrow> [] | Some s \<Rightarrow> s)
             (case kw_outputFileType kw of None \<Rightarrow> [] | Some s \<Rightarrow> s)"
    by (cases data; simp)+
qed

lemma nii_init_total:
  assumes "parse_selector (kw_frameToConvert kw) = Inr pf"
  shows "case parse_selector (kw_sliceToConvert kw) of
           Inl e \<Rightarrow> med2image_nii_init kw data = (Inl e :: error + 'a med2image)
         | Inr ps \<Rightarrow> \<exists>self :: 'a med2image. med2image_nii_init kw data = Inr self"
  using assms
  by (cases pf; cases "parse_selector (kw_sliceToConvert kw)")
     (auto simp: med2image_nii_init_def med2image_init_def split: prod.splits)

lemma run_3D_constructed:
  assumes "med2image_nii_init kw (Arr3 v) = Inr self"
  shows "\<exists>k. (if b_convertMiddleSlice self then PInt (int (dimZ3 v div 2)) else sliceToConvert self) = PInt k \<and>
     med2image_nii_run self =
     (if list_all (in_axis (dimZ3 v)) (sel_range (dimZ3 v) k)
      then (map (mk_job (output_file self) 0 v) (sel_range (dimZ3 v) k), None)
      else ([], Some IndexError))"
proof -
  note i = nii_init_Arr3 [OF assms]
  from selector_valid [OF i(1)]
  obtain j where fr: "b_convertMiddleFrame self \<or> frameToConvert self = PInt j" by blast
  from selector_valid [OF i(2)]
  obtain k where sl: "(if b_convertMiddleSlice self then PInt (int (dimZ3 v div 2))
      else sliceToConvert self) = PInt k" by (cases "b_convertMiddleSlice self") auto
  from run_3D [OF i(3,4) sl fr] sl show ?thesis by blast
qed

lemma run_4D_constructed:
  assumes "med2image_nii_init kw (Arr4 w) = Inr self"
  shows "\<exists>k j.
     (if b_convertMiddleSlice self then PInt (int (dimZ4 w div 2)) else sliceToConvert self) = PInt k \<and>
     (if b_convertMiddleFrame self then PInt (int (dimT4 w div 2)) else frameToConvert self) = PInt j \<and>
     med2image_nii_run self =
     (if list_all (in_axis (dimZ4 w)) (sel_range (dimZ4 w) k)
      then (concat (map (\<lambda>f. map (mk_job (output_file self) f (frame_at w (norm_index (dimT4 w) f)))
                                        (sel_range (dimZ4 w) k))
                              (takeWhile (in_axis (dimT4 w)) (sel_range (dimT4 w) j))),
            if list_all (in_axis (dimT4 w)) (sel_range (dimT4 w) j) then None else Some IndexError)
      else if sel_range (dimT4 w) j = [] then ([], None) else ([], Some IndexError))"
proof -
  note i = nii_init_Arr4 [OF assms]
  from selector_valid [OF i(1)]
  obtain j where fr: "(if b_convertMiddleFrame self then PInt (int (dimT4 w div 2))
      else frameToConvert self) = PInt j" by (cases "b_convertMiddleFrame self") auto
  from selector_valid [OF i(2)]
  obtain k where sl: "(if b_convertMiddleSlice self then PInt (int (dimZ4 w div 2))
      else sliceToConvert self) = PInt k" by (cases "b_convertMiddleSlice self") auto
  from run_4D [OF i(3,4) sl fr] sl fr show ?thesis by blast
qed

lemma not_in_axis: "int n \<le> i \<or> i < - int n \<Longrightarrow> \<not> in_axis n i"
  by (auto simp: in_axis_def)

subsection \<open>Ranges of a run and empty axes\<close>

lemma in_axis_empty: "list_all (in_axis 0) xs \<Longrightarrow> xs = []"
  by (cases xs) (auto simp: in_axis_def)

lemma takeWhile_in_axis_empty [simp]: "takeWhile (in_axis 0) xs = []"
  by (cases xs) (simp_all add: in_axis_def)

lemma slice_range_eq:
  "(if b_convertMiddleSlice self then PInt (int (dimZ3 v div 2)) else sliceToConvert self) = PInt k
   \<Longrightarrow> slice_range self v (0, 0) = Inr (sel_range (dimZ3 v) k)"
  using slice_bounds_range [of k "(0, 0)" "dimZ3 v"] by (auto simp: slice_range_def)

lemma frame_range_eq:
  "frame_count self = Inr n \<Longrightarrow>
   (if b_convertMiddleFrame self then PInt (int (n div 2)) else frameToConvert self) = PInt j
   \<Longrightarrow> frame_range self = Inr (sel_range n j)"
  using frame_bounds_range [of j n] by (auto simp: frame_range_def)

lemma jobs_empty_3D: "dimZ3 v = 0 \<Longrightarrow> fst (nii_convert kw (Arr3 v)) = []"
proof (cases "med2image_nii_init kw (Arr3 v) :: error + 'a med2image")
  case (Inl e)
  then show ?thesis by (simp add: nii_convert_def)
next
  case (Inr self)
  assume z: "dimZ3 v = 0"
  from run_3D_constructed [OF Inr] z Inr show ?thesis
    by (auto simp: nii_convert_def dest: in_axis_empty)
qed

lemma jobs_empty_4D:
  assumes "dimZ4 w = 0 \<or> dimT4 w = 0"
  shows "fst (nii_convert kw (Arr4 w)) = []"
proof (cases "med2image_nii_init kw (Arr4 w) :: error + 'a med2image")
  case (Inl e)
  then show ?thesis by (simp add: nii_convert_def)
next
  case (Inr self)
  from run_4D_constructed [OF Inr] obtain k j where
    run: "med2image_nii_run self =
     (if list_all (in_axis (dimZ4 w)) (sel_range (dimZ4 w) k)
      then (concat (map (\<lambda>f. map (mk_job (output_file self) f (frame_at w (norm_index (dimT4 w) f)))
                                        (sel_range (dimZ4 w) k))
                              (takeWhile (in_axis (dimT4 w)) (sel_range (dimT4 w) j))),
            if list_all (in_axis (dimT4 w)) (sel_range (dimT4 w) j) then None else Some IndexError)
      else if sel_range (dimT4 w) j = [] then ([], None) else ([], Some IndexError))"
    by blast
  from assms show ?thesis
  proof
    assume "dimZ4 w = 0"
    then show ?thesis using run Inr by (auto simp: nii_convert_def dest: in_axis_empty)
  next
    assume "dimT4 w = 0"
    then show ?thesis using run Inr by (auto simp: nii_convert_def)
  qed
qed

subsection \<open>Rotation\<close>

lemma rot90_shape [simp]: "nrows (rot90 m) = ncols m" "ncols (rot90 m) = nrows m"
  by (simp_all add: rot90_def)

lemma rot90_wf [simp]: "wf_array2 (rot90 m)"
  by (simp add: wf_array2_def rot90_def list_all_iff)

lemma rot90_cell:
  "i < ncols m \<Longrightarrow> j < nrows m \<Longrightarrow> cells (rot90 m) ! i ! j = cells m ! j ! (ncols m - 1 - i)"
  by (simp add: rot90_def)

lemma array2_eqI:
  fixes a b :: "'a array2"
  assumes "wf_array2 a" "wf_array2 b" "nrows a = nrows b" "ncols a = ncols b"
    and "\<And>i j. i < nrows a \<Longrightarrow> j < ncols a \<Longrightarrow> cells a ! i ! j = cells b ! i ! j"
  shows "a = b"
proof -
  have "cells a = cells b"
  proof (rule nth_equalityI)
    show "length (cells a) = length (cells b)"
      using assms(1-3) by (simp add: wf_array2_def)
  next
    fix i assume i: "i < length (cells a)"
    then have ia: "i < nrows a" "i < nrows b" using assms(1,3) by (simp_all add: wf_array2_def)
    have la: "length (cells a ! i) = ncols a"
      using assms(1) i by (simp add: wf_array2_def list_all_length)
    have lb: "length (cells b ! i) = ncols b"
      using assms(2) ia(2) by (simp add: wf_array2_def list_all_length)
    show "cells a ! i = cells b ! i"
      by (rule nth_equalityI) (use la lb assms(4,5) ia in simp_all)
  qed
  then show ?thesis using assms(3,4) by simp
qed

lemma slice_at_wf [simp]: "wf_array2 (slice_at v i)"
  by (simp add: wf_array2_def slice_at_def list_all_iff)

lemma slice_at_shape [simp]: "nrows (slice_at v i) = dimX3 v" "ncols (slice_at v i) = dimY3 v"
  by (simp_all add: slice_at_def)

lemma run_demo4_ok:
  "snd (med2image_nii_run (demo_self4 (False, PInt (- 1)) (False, PInt (- 1)))) = None"
  by code_simp

section \<open>The statements of the specification\<close>









text \<open>
  C8. On a 3D volume the frame selector is ignored: two conversions that differ only in
  the frame selector (\<open>-1\<close> for all, \<^verbatim>\<open>m\<close> for the middle, or any integer) emit the same
  jobs in the same order under the same file names and end the same way, so no error
  ever comes from the frame selector.
\<close>

theorem C8_frame_selector_ignored_3D:
  assumes "selector_ok f" and "selector_ok f'"
  shows "nii_convert (kw\<lparr>kw_frameToConvert := Some f\<rparr>) (Arr3 v) =
         nii_convert (kw\<lparr>kw_frameToConvert := Some f'\<rparr>) (Arr3 v)"
proof -
  let ?A = "kw\<lparr>kw_frameToConvert := Some f\<rparr>" and ?B = "kw\<lparr>kw_frameToConvert := Some f'\<rparr>"
  from selector_ok_parse [OF assms(1)] obtain pf where
    pf: "parse_selector (kw_frameToConvert ?A) = Inr pf" by auto
  from selector_ok_parse [OF assms(2)] obtain pf' where
    pf': "parse_selector (kw_frameToConvert ?B) = Inr pf'" by auto
  from nii_init_total [OF pf, of "Arr3 v"] nii_init_total [OF pf', of "Arr3 v"]
  have "(\<exists>e. med2image_nii_init ?A (Arr3 v) = (Inl e :: error + 'a med2image) \<and>
             med2image_nii_init ?B (Arr3 v) = (Inl e :: error + 'a med2image)) \<or>
        (\<exists>a b :: 'a med2image. med2image_nii_init ?A (Arr3 v) = Inr a \<and>
             med2image_nii_init ?B (Arr3 v) = Inr b)"
    by (cases "parse_selector (kw_sliceToConvert kw)") auto
  then consider
    (fail) e where "med2image_nii_init ?A (Arr3 v) = (Inl e :: error + 'a med2image)"
      "med2image_nii_init ?B (Arr3 v) = (Inl e :: error + 'a med2image)"
  | (ok) a b :: "'a med2image" where "med2image_nii_init ?A (Arr3 v) = Inr a"
      "med2image_nii_init ?B (Arr3 v) = Inr b"
    by blast
  then show ?thesis
  proof cases
    case fail
    then show ?thesis by (simp add: nii_convert_def)
  next
    case ok
    note ia = nii_init_Arr3 [OF ok(1)] and ib = nii_init_Arr3 [OF ok(2)]
    have same_sel: "b_convertMiddleSlice a = b_convertMiddleSlice b"
      "sliceToConvert a = sliceToConvert b"
      using ia(2) ib(2) by simp_all
    have same_nm: "output_file a = output_file b"
      using nii_init_strs [OF ok(1)] nii_init_strs [OF ok(2)] ia(3) ib(3)
      by (simp add: output_file_def fun_eq_iff)
    from run_3D_constructed [OF ok(1)] run_3D_constructed [OF ok(2)]
    have "med2image_nii_run a = med2image_nii_run b"
      using same_sel same_nm by auto
    then show ?thesis using ok by (simp add: nii_convert_def)
  qed
qed

theorem C8_frame_selector_ignored_3D_witness:
  "selector_ok ''-1'' \<and> selector_ok ''7'' \<and> selector_ok ''m'' \<and>
   nii_convert (demo_kw ''1'' ''-1'') (Arr3 demo_vol3) =
     nii_convert (demo_kw ''1'' ''7'') (Arr3 demo_vol3) \<and>
   nii_convert (demo_kw ''1'' ''m'') (Arr3 demo_vol3) =
     nii_convert (demo_kw ''1'' ''7'') (Arr3 demo_vol3) \<and>
   nii_convert (demo_kw ''1'' ''7'') (Arr3 demo_vol3) =
     ([\<lparr>job_file = ''out/vol-slice001.png'',
         job_image = \<lparr>nrows = 2, ncols = 2, cells = [[11, 111], [1, 101]]\<rparr>\<rparr>], None)"
proof -
  have ok: "selector_ok ''-1''" "selector_ok ''7''" "selector_ok ''m''"
    by (simp_all add: selector_ok_def py_int_examples py_lower_def lower_char_def)
  have kw: "(demo_kw ''1'' ''0'')\<lparr>kw_frameToConvert := Some f\<rparr> = demo_kw ''1'' f" for f
    by (simp add: demo_kw_def)
  note all7 = C8_frame_selector_ignored_3D
    [OF ok(1) ok(2), of "demo_kw ''1'' ''0''" demo_vol3, unfolded kw]
  note mid7 = C8_frame_selector_ignored_3D
    [OF ok(3) ok(2), of "demo_kw ''1'' ''0''" demo_vol3, unfolded kw]
  have val: "nii_convert (demo_kw ''1'' ''7'') (Arr3 demo_vol3) =
     ([\<lparr>job_file = ''out/vol-slice001.png'',
         job_image = \<lparr>nrows = 2, ncols = 2, cells = [[11, 111], [1, 101]]\<rparr>\<rparr>], None)"
    by code_simp
  show ?thesis
    using ok all7 mid7 val by (intro conjI) simp_all
qed

text \<open>
  C9. The rotation applied to every slice before it is saved is a quarter turn: it takes
  an array of shape \<open>(R, C)\<close> to one of shape \<open>(C, R)\<close>, and four rotations in a row give
  the array back. Every slice taken from a volume of shape \<open>(X, Y, Z)\<close> is such an
  array, of shape \<open>(X, Y)\<close>, so the saved image has shape \<open>(Y, X)\<close>.
\<close>

theorem C9_rot90_quarter_turn:
  assumes "wf_array2 m"
  shows "nrows (rot90 m) = ncols m \<and> ncols (rot90 m) = nrows m \<and> wf_array2 (rot90 m) \<and>
         rot90 (rot90 (rot90 (rot90 m))) = m \<and>
         wf_array2 (slice_at v z) \<and>
         nrows (rot90 (slice_at v z)) = dimY3 v \<and> ncols (rot90 (slice_at v z)) = dimX3 v"
proof -
  have "rot90 (rot90 (rot90 (rot90 m))) = m"
  proof (rule array2_eqI)
    fix i j assume ij: "i < nrows (rot90 (rot90 (rot90 (rot90 m))))"
      "j < ncols (rot90 (rot90 (rot90 (rot90 m))))"
    then have i: "i < nrows m" and j: "j < ncols m" by simp_all
    have "cells (rot90 (rot90 (rot90 (rot90 m)))) ! i ! j =
          cells (rot90 (rot90 (rot90 m))) ! j ! (nrows m - 1 - i)"
      using i j by (simp add: rot90_cell)
    also have "\<dots> = cells (rot90 (rot90 m)) ! (nrows m - 1 - i) ! (ncols m - 1 - j)"
      using i j by (simp add: rot90_cell)
    also have "\<dots> = cells (rot90 m) ! (ncols m - 1 - j) ! (nrows m - 1 - (nrows m - 1 - i))"
      using i j by (simp add: rot90_cell)
    also have "\<dots> = cells m ! (nrows m - 1 - (nrows m - 1 - i)) ! (ncols m - 1 - (ncols m - 1 - j))"
      using i j by (simp add: rot90_cell)
    also have "\<dots> = cells m ! i ! j"
      using i j by simp
    finally show "cells (rot90 (rot90 (rot90 (rot90 m)))) ! i ! j = cells m ! i ! j" .
  qed (use assms in simp_all)
  then show ?thesis by simp
qed

theorem C9_rot90_quarter_turn_witness:
  "wf_array2 demo_array2 \<and>
   rot90 demo_array2 = \<lparr>nrows = 3, ncols = 2, cells = [[3, 6], [2, 5], [1, 4]]\<rparr> \<and>
   nrows (rot90 demo_array2) = 3 \<and> ncols (rot90 demo_array2) = 2 \<and>
   rot90 (rot90 (rot90 (rot90 demo_array2))) = demo_array2 \<and>
   nrows (rot90 (slice_at demo_vol3 1)) = 2 \<and> ncols (rot90 (slice_at demo_vol3 1)) = 2"
proof -
  have wf: "wf_array2 demo_array2"
    by (simp add: wf_array2_def demo_array2_def)
  note inst = C9_rot90_quarter_turn [OF wf, of demo_vol3 1]
  have sh: "ncols demo_array2 = 3" "nrows demo_array2 = 2" "dimY3 demo_vol3 = 2" "dimX3 demo_vol3 = 2"
    by (simp_all add: demo_array2_def demo_vol3_def)
  have val: "rot90 demo_array2 = \<lparr>nrows = 3, ncols = 2, cells = [[3, 6], [2, 5], [1, 4]]\<rparr>"
    by code_simp
  show ?thesis
    using wf inst val sh by (intro conjI) simp_all
qed




text \<open>
  C5. As stated for every run, the count does not hold: with the slice selector \<^verbatim>\<open>m\<close> on
  a 3D volume without slices the frame range is \<open>[0]\<close> and the slice range is \<open>[0]\<close>,
  both of length one, and the run fails with \<^verbatim>\<open>IndexError\<close> having emitted no job.
\<close>

theorem C5_counterexample:
  "med2image_nii_init (demo_kw ''m'' ''-1'') (Arr3 demo_empty3) = Inr demo_self_empty \<and>
   frame_range demo_self_empty = Inr [0] \<and>
   frame_volume demo_self_empty 0 = Inr (Some demo_empty3) \<and>
   slice_range demo_self_empty demo_empty3 (0, 0) = Inr [0] \<and>
   med2image_nii_run demo_self_empty = ([], Some IndexError) \<and>
   length (fst (med2image_nii_run demo_self_empty)) \<noteq> length [0 :: int] * length [0 :: int]"
proof -
  have init: "med2image_nii_init (demo_kw ''m'' ''-1'') (Arr3 demo_empty3) = Inr demo_self_empty"
    by (simp add: med2image_nii_init_def med2image_init_def demo_kw_def demo_self_empty_def
        demo_self3_def demo_type parse_selector_examples)
  have fr: "frame_range demo_self_empty = Inr [0]"
    by code_simp
  have fv: "frame_volume demo_self_empty 0 = Inr (Some demo_empty3)"
    by (simp add: frame_volume_def demo_self_empty_def demo_self3_def)
  have sr: "slice_range demo_self_empty demo_empty3 (0, 0) = Inr [0]"
    by code_simp
  have run: "med2image_nii_run demo_self_empty = ([], Some IndexError)"
    by code_simp
  show ?thesis
    using init fr fv sr run by (intro conjI) simp_all
qed

text \<open>
  C5, amended. In every run that completes without an error, the number of emitted jobs
  is the length of the frame range times the length of the slice range, which is the
  same list in every frame. And in every run, completed or not, an axis of length zero
  yields no job: none when the volume has no slice, none when a 4D volume has no frame.
\<close>

theorem C5_job_count:
  "(med2image_nii_init kw data = Inr self \<longrightarrow> med2image_nii_run self = (jobs, None) \<longrightarrow>
      (\<exists>fr sr. frame_range self = Inr fr \<and>
         (\<forall>f \<in> set fr. \<exists>v. frame_volume self f = Inr (Some v) \<and>
                            slice_range self v (0, 0) = Inr sr) \<and>
         length jobs = length fr * length sr)) \<and>
   (dimZ3 v = 0 \<longrightarrow> fst (nii_convert kw' (Arr3 v)) = []) \<and>
   (dimZ4 w = 0 \<or> dimT4 w = 0 \<longrightarrow> fst (nii_convert kw'' (Arr4 w)) = [])"
proof (intro conjI impI)
  assume init: "med2image_nii_init kw data = Inr self"
    and run: "med2image_nii_run self = (jobs, None)"
  show "\<exists>fr sr. frame_range self = Inr fr \<and>
         (\<forall>f \<in> set fr. \<exists>v. frame_volume self f = Inr (Some v) \<and>
                            slice_range self v (0, 0) = Inr sr) \<and>
         length jobs = length fr * length sr"
  proof (cases data)
    case (Arr3 v3)
    note n = nii_init_Arr3 [OF init [unfolded Arr3]]
    from run_3D_constructed [OF init [unfolded Arr3]] obtain k where
      k: "(if b_convertMiddleSlice self then PInt (int (dimZ3 v3 div 2))
           else sliceToConvert self) = PInt k"
      and r: "med2image_nii_run self =
       (if list_all (in_axis (dimZ3 v3)) (sel_range (dimZ3 v3) k)
        then (map (mk_job (output_file self) 0 v3) (sel_range (dimZ3 v3) k), None)
        else ([], Some IndexError))" by blast
    from selector_valid [OF n(1)] obtain j where
      j: "(if b_convertMiddleFrame self then PInt (int (1 div 2)) else frameToConvert self) = PInt j"
      by (cases "b_convertMiddleFrame self") auto
    have fc: "frame_count self = Inr 1" using n(3) by (simp add: frame_count_def)
    have fr: "frame_range self = Inr (sel_range 1 j)"
      by (rule frame_range_eq [OF fc j])
    have one: "length (sel_range 1 j) = 1"
      by (simp add: sel_range_def py_range_def)
    have fv: "frame_volume self f = Inr (Some v3)" for f
      using n(3,4) by (simp add: frame_volume_def)
    have "length jobs = length (sel_range (dimZ3 v3) k)"
      using r run by (auto split: if_splits)
    with fr fv slice_range_eq [OF k] one show ?thesis by auto
  next
    case (Arr4 w4)
    note n = nii_init_Arr4 [OF init [unfolded Arr4]]
    from run_4D_constructed [OF init [unfolded Arr4]] obtain k j where
      k: "(if b_convertMiddleSlice self then PInt (int (dimZ4 w4 div 2))
           else sliceToConvert self) = PInt k"
      and j: "(if b_convertMiddleFrame self then PInt (int (dimT4 w4 div 2))
           else frameToConvert self) = PInt j"
      and r: "med2image_nii_run self =
     (if list_all (in_axis (dimZ4 w4)) (sel_range (dimZ4 w4) k)
      then (concat (map (\<lambda>f. map (mk_job (output_file self) f (frame_at w4 (norm_index (dimT4 w4) f)))
                                        (sel_range (dimZ4 w4) k))
                              (takeWhile (in_axis (dimT4 w4)) (sel_range (dimT4 w4) j))),
            if list_all (in_axis (dimT4 w4)) (sel_range (dimT4 w4) j) then None else Some IndexError)
      else if sel_range (dimT4 w4) j = [] then ([], None) else ([], Some IndexError))"
      by blast
    have fc: "frame_count self = Inr (dimT4 w4)" using n(3,4) by (simp add: frame_count_def)
    have fr: "frame_range self = Inr (sel_range (dimT4 w4) j)"
      by (rule frame_range_eq [OF fc j])
    have sr: "slice_range self (frame_at w4 t) (0, 0) = Inr (sel_range (dimZ4 w4) k)" for t
      using slice_range_eq [of self "frame_at w4 t" k, unfolded dimZ3_frame_at, OF k] .
    have fv: "frame_volume self f = Inr (Some (frame_at w4 (norm_index (dimT4 w4) f)))"
      if "in_axis (dimT4 w4) f" for f
      using n(3,4) that by (simp add: frame_volume_def take_frame_def axis_index_def)
    show ?thesis
    proof (cases "list_all (in_axis (dimZ4 w4)) (sel_range (dimZ4 w4) k)")
      case True
      with r run have ok: "list_all (in_axis (dimT4 w4)) (sel_range (dimT4 w4) j)"
        and jobs: "jobs = concat (map (\<lambda>f. map (mk_job (output_file self) f (frame_at w4 (norm_index (dimT4 w4) f)))
                                        (sel_range (dimZ4 w4) k))
                              (takeWhile (in_axis (dimT4 w4)) (sel_range (dimT4 w4) j)))"
        by (auto split: if_splits)
      have len: "length jobs = length (sel_range (dimT4 w4) j) * length (sel_range (dimZ4 w4) k)"
        unfolding jobs takeWhile_all [OF ok] by (rule length_concat_const)
      have "\<forall>f \<in> set (sel_range (dimT4 w4) j). \<exists>v. frame_volume self f = Inr (Some v) \<and>
                            slice_range self v (0, 0) = Inr (sel_range (dimZ4 w4) k)"
        using ok fv sr by (auto simp: list_all_iff)
      with fr len show ?thesis by blast
    next
      case False
      with r run have e: "sel_range (dimT4 w4) j = []" "jobs = []"
        by (auto split: if_splits)
      with fr show ?thesis by auto
    qed
  next
    case (ArrOther m)
    from init have "Vnp_3DVol self = None" "\<not> b_4D self"
      and ps: "parse_selector (kw_frameToConvert kw) = Inr (b_convertMiddleFrame self, frameToConvert self)"
      using init_fields(1,3,6) [of kw]
      by (auto simp: ArrOther med2image_nii_init_def split: sum.splits)
    note s = this(1,2)
    have fc: "frame_count self = Inr 1" using s(2) by (simp add: frame_count_def)
    from selector_valid [OF ps] obtain j where
      j: "(if b_convertMiddleFrame self then PInt (int (1 div 2)) else frameToConvert self) = PInt j"
      by (cases "b_convertMiddleFrame self") auto
    define self' where "self' = (if b_convertMiddleFrame self
                  then self\<lparr>frameToConvert := PInt (int (1 div 2))\<rparr> else self)"
    have j': "frameToConvert self' = PInt j" using j by (auto simp: self'_def split: if_splits)
    from frame_bounds_range [of j 1] obtain a b where
      ab: "frame_bounds (PInt j) 1 = Inr (a, b)" "py_range a b = sel_range 1 j" by auto
    have "\<exists>f. sel_range 1 j = [f]" by (simp add: sel_range_def py_range_def)
    then obtain f where f: "sel_range 1 j = [f]" ..
    have s': "Vnp_3DVol self' = None" "\<not> b_4D self'" using s by (auto simp: self'_def)
    have "med2image_nii_run self = frame_loop self' (0, 0) [f] []"
      using run_unfold [OF fc self'_def] j' ab f by simp
    also have "\<dots> = ([], Some AttributeError)"
      using s' by (simp add: frame_volume_def)
    finally show ?thesis using run by simp
  qed
next
  assume "dimZ3 v = 0" then show "fst (nii_convert kw' (Arr3 v)) = []" by (rule jobs_empty_3D)
next
  assume "dimZ4 w = 0 \<or> dimT4 w = 0"
  then show "fst (nii_convert kw'' (Arr4 w)) = []" by (rule jobs_empty_4D)
qed

theorem C5_job_count_witness:
  "med2image_nii_init (demo_kw ''-1'' ''-1'') (Arr4 demo_vol4) =
     Inr (demo_self4 (False, PInt (- 1)) (False, PInt (- 1))) \<and>
   snd (med2image_nii_run (demo_self4 (False, PInt (- 1)) (False, PInt (- 1)))) = None \<and>
   frame_range (demo_self4 (False, PInt (- 1)) (False, PInt (- 1))) = Inr [0, 1, 2] \<and>
   slice_range (demo_self4 (False, PInt (- 1)) (False, PInt (- 1)))
     (frame_at demo_vol4 0) (0, 0) = Inr [0, 1] \<and>
   length (fst (med2image_nii_run (demo_self4 (False, PInt (- 1)) (False, PInt (- 1))))) =
     length [0, 1, 2 :: int] * length [0, 1 :: int] \<and>
   dimZ3 demo_empty3 = 0 \<and>
   fst (nii_convert (demo_kw ''m'' ''-1'') (Arr3 demo_empty3)) = [] \<and>
   dimT4 (demo_vol4\<lparr>dimT4 := 0\<rparr>) = 0 \<and>
   fst (nii_convert (demo_kw ''1'' ''m'') (Arr4 (demo_vol4\<lparr>dimT4 := 0\<rparr>))) = []"
proof -
  let ?S = "demo_self4 (False, PInt (- 1)) (False, PInt (- 1))"
  note init = demo_init4 [OF parse_selector_examples(1) parse_selector_examples(1)]
  have "\<exists>J. med2image_nii_run ?S = (J, None)"
    using run_demo4_ok by (cases "med2image_nii_run ?S") auto
  then obtain J where J: "med2image_nii_run ?S = (J, None)" ..
  note inst = C5_job_count [of "demo_kw ''-1'' ''-1''" "Arr4 demo_vol4" ?S J
      demo_empty3 "demo_kw ''m'' ''-1''" "demo_vol4\<lparr>dimT4 := 0\<rparr>" "demo_kw ''1'' ''m''"]
  from inst [THEN conjunct1, rule_format, OF init J] obtain fr sr where
    fr: "frame_range ?S = Inr fr"
    and all: "\<forall>f \<in> set fr. \<exists>v. frame_volume ?S f = Inr (Some v) \<and>
                            slice_range ?S v (0, 0) = Inr sr"
    and len: "length J = length fr * length sr" by blast
  have frv: "frame_range ?S = Inr [0, 1, 2]" by code_simp
  have fv: "frame_volume ?S 0 = Inr (Some (frame_at demo_vol4 0))"
    by (simp add: frame_volume_def demo_self4_def take_frame_def axis_index_def in_axis_def
        norm_index_def)
  have srv: "slice_range ?S (frame_at demo_vol4 0) (0, 0) = Inr [0, 1]" by code_simp
  from fr frv have "fr = [0, 1, 2]" by simp
  with all fv srv have "sr = [0, 1]" by auto
  with len \<open>fr = [0, 1, 2]\<close> have l: "length J = length [0, 1, 2 :: int] * length [0, 1 :: int]"
    by simp
  have z: "dimZ3 demo_empty3 = 0" by (simp add: demo_empty3_def)
  have t: "dimZ4 (demo_vol4\<lparr>dimT4 := 0\<rparr>) = 0 \<or> dimT4 (demo_vol4\<lparr>dimT4 := 0\<rparr>) = 0" by simp
  note e3 = inst [THEN conjunct2, THEN conjunct1, rule_format, OF z]
  note e4 = inst [THEN conjunct2, THEN conjunct2, rule_format, OF t]
  show ?thesis
    using init J frv srv l z e3 e4 by simp
qed

text \<open>
  C6. The claim (an explicit type wins over the extension of the stem, else the extension
  of the stem is the type, else \<^verbatim>\<open>png\<close>; the stem \<^verbatim>\<open>out.jpg\<close> alone gives the type
  \<^verbatim>\<open>jpg\<close>, and with the type \<^verbatim>\<open>png\<close> gives files \<^verbatim>\<open>out.png\<close> plus the slice suffix) is
  what the help text of the program promises. The constructor evaluated: from the stem
  the type is taken with its leading dot (\<^verbatim>\<open>.jpg\<close>), the default is \<^verbatim>\<open>.png\<close> with a dot
  too, and the stem keeps its extension in every file name, so the files are
  \<^verbatim>\<open>out.jpg-slice000..jpg\<close>, \<^verbatim>\<open>out-slice000..png\<close> and \<^verbatim>\<open>out.jpg-slice000.png\<close>. From the
  command line the type is never empty (its default is the string \<^verbatim>\<open>none\<close>), which
  gives \<^verbatim>\<open>out.jpg-slice000.none\<close>.
\<close>

theorem C6_extension_resolution_evaluated:
  "map_sum id str_outputFileType
     (med2image_nii_init (demo_kw_out ''out.jpg'' None) (Arr3 demo_vol3)) = Inr ''.jpg'' \<and>
   map_sum id str_outputFileType
     (med2image_nii_init (demo_kw_out ''out'' None) (Arr3 demo_vol3)) = Inr ''.png'' \<and>
   map_sum id str_outputFileType
     (med2image_nii_init (demo_kw_out ''out.jpg'' (Some ''png'')) (Arr3 demo_vol3)) = Inr ''png'' \<and>
   map job_file (fst (nii_convert (demo_kw_out ''out.jpg'' None) (Arr3 demo_vol3))) =
     [''out/out.jpg-slice000..jpg''] \<and>
   map job_file (fst (nii_convert (demo_kw_out ''out'' None) (Arr3 demo_vol3))) =
     [''out/out-slice000..png''] \<and>
   map job_file (fst (nii_convert (demo_kw_out ''out.jpg'' (Some ''png'')) (Arr3 demo_vol3))) =
     [''out/out.jpg-slice000.png''] \<and>
   map job_file (fst (main (\<lambda>p. Arr3 demo_vol3) (demo_args ''scan.nii''))) =
     [''.//out.jpg-slice000.none'', ''.//out.jpg-slice001.none'', ''.//out.jpg-slice002.none'']"
  by (intro conjI; code_simp)

text \<open>
  C7. The claim is that a file whose extension is neither \<^verbatim>\<open>.nii\<close> nor \<^verbatim>\<open>.gz\<close> goes to
  the generic converter and the program ends quietly without output. The generic
  \<^verbatim>\<open>run\<close> is indeed empty, but it is never reached: the main block builds the generic
  converter without the key \<^verbatim>\<open>frameToConvert\<close>, the attribute keeps the integer \<open>-1\<close>,
  and the constructor calls \<^verbatim>\<open>lower\<close> on it. Every such command line ends in
  \<^verbatim>\<open>AttributeError\<close>, and so does every construction without that key.
\<close>

theorem C7_generic_path_raises:
  assumes "\<not> man a" and "\<not> synopsis a"
    and "snd (splitext (inputFile a)) \<noteq> ''.nii''" and "snd (splitext (inputFile a)) \<noteq> ''.gz''"
  shows "main load a = ([], Some AttributeError) \<and>
         med2image_init (kw\<lparr>kw_frameToConvert := None\<rparr>) = (Inl AttributeError :: error + 'a med2image)"
  using assms by (simp add: main_def Let_def med2image_init_def parse_selector_def)

theorem C7_generic_path_raises_witness:
  "\<not> man (demo_args ''scan.dcm'') \<and> \<not> synopsis (demo_args ''scan.dcm'') \<and>
   snd (splitext (inputFile (demo_args ''scan.dcm''))) = ''.dcm'' \<and>
   ''.dcm'' \<noteq> ''.nii'' \<and> ''.dcm'' \<noteq> ''.gz'' \<and>
   main (\<lambda>p. Arr3 demo_vol3) (demo_args ''scan.dcm'') = ([], Some AttributeError) \<and>
   med2image_run (demo_self3 (False, PInt (- 1)) (False, PInt (- 1))) = ([], None)"
proof -
  have ext: "snd (splitext (inputFile (demo_args ''scan.dcm''))) = ''.dcm''"
    by code_simp
  have flags: "\<not> man (demo_args ''scan.dcm'')" "\<not> synopsis (demo_args ''scan.dcm'')"
    by (simp_all add: demo_args_def)
  have ne: "snd (splitext (inputFile (demo_args ''scan.dcm''))) \<noteq> ''.nii''"
    "snd (splitext (inputFile (demo_args ''scan.dcm''))) \<noteq> ''.gz''"
    by (simp_all add: ext)
  note inst = C7_generic_path_raises
    [OF flags ne, of "\<lambda>p. Arr3 demo_vol3" "demo_kw ''-1'' ''-1''", THEN conjunct1]
  show ?thesis
    using flags ext inst by (simp add: med2image_run_def)
qed

end
